theory Spec2Isabelle
  imports Complex_Main "HOL-Library.AList"
begin

section \<open>The dynamic controller of HelpCodeItMockApi\<close>

text \<open>
  The development embeds \<^verbatim>\<open>controllers/dynamicController.js\<close>: the type validator
  \<^verbatim>\<open>validateDataType\<close>, the dispatcher \<^verbatim>\<open>handleRequest\<close> and the four handlers
  \<^verbatim>\<open>handleCreate\<close>, \<^verbatim>\<open>handleRead\<close>, \<^verbatim>\<open>handleUpdate\<close>, \<^verbatim>\<open>handleDelete\<close>.

  Conventions of the embedding.
  \<^item> A JavaScript string is a \<^typ>\<open>string\<close>; a character stands for one code unit below 256,
    so the white space known to the model is the white space of that range.
  \<^item> A value read from a JSON body is a \<^verbatim>\<open>json\<close>; reading a property gives a
    \<^verbatim>\<open>json option\<close>, where \<^term>\<open>None\<close> is JavaScript's \<^verbatim>\<open>undefined\<close>. Property names are
    taken not to be members of \<^verbatim>\<open>Object.prototype\<close>, so a read finds an own property or nothing.
  \<^item> An object is an association list with distinct keys, in insertion order; assignment to a
    property is \<^const>\<open>AList.update\<close> (replace in place, or append).
  \<^item> A JavaScript number is a \<^verbatim>\<open>jsnum\<close>: not-a-number, an infinity, or a finite double given
    by its exact rational value (the two zeros are not distinguished).
  \<^item> \<^verbatim>\<open>JSON.parse (JSON.stringify x)\<close> is the identity on the payloads built here, so the
    column \<^verbatim>\<open>data_storage.data\<close> holds the payload object itself.
  \<^item> The log lines written with \<^verbatim>\<open>console.log\<close> and \<^verbatim>\<open>console.error\<close> are left out.
\<close>

subsection \<open>JavaScript values\<close>

datatype json =
    JNull
  | JBool bool
  | JNum rat
  | JStr string
  | JArr "json list"
  | JObj "(string \<times> json) list"

datatype jsnum = NaN | PlusInfinity | MinusInfinity | Finite rat

text \<open>
  What the script takes from its platform without defining it: the text a number is printed as
  (\<^verbatim>\<open>Number.prototype.toString\<close>), the implementation-defined \<^verbatim>\<open>Date.parse\<close> on texts, and the
  comparison the store makes between the column \<^verbatim>\<open>data_id\<close> and the textual query parameter
  \<^verbatim>\<open>id\<close> in \<^verbatim>\<open>WHERE data_id = ?\<close>. Every theorem below holds for each choice of the three.
\<close>

record runtime =
  numberToString :: "rat \<Rightarrow> string"
  dateParse :: "string \<Rightarrow> jsnum"
  sqlIdEquals :: "nat \<Rightarrow> string \<Rightarrow> bool"

subsection \<open>Rounding to a double\<close>

text \<open>
  A numeric text denotes an exact rational, which JavaScript rounds to the nearest double, ties to
  the even significand; from \<open>2 ^ 1024\<close> on the result is infinite. Doubles have 53 significant
  bits and no binary exponent below \<open>- 1022\<close>.
\<close>

definition roundHalfEven :: "rat \<Rightarrow> int" where
  "roundHalfEven q =
     (let f = \<lfloor>q\<rfloor>; d = q - of_int f in
      if d < 1 / 2 then f else if 1 / 2 < d then f + 1 else if even f then f else f + 1)"

function bitLength :: "int \<Rightarrow> int" where
  "bitLength n = (if n \<le> 0 then 0 else 1 + bitLength (n div 2))"
  by pat_completeness auto
termination
  by (relation "measure nat") auto

declare bitLength.simps [simp del]

definition binaryExponent :: "rat \<Rightarrow> int" where
  "binaryExponent q =
     (if 1 \<le> q then bitLength \<lfloor>q\<rfloor> - 1
      else let k = bitLength \<lfloor>1 / q\<rfloor> - 1 in
           if q * 2 powi k = 1 then - k else - k - 1)"

definition toDouble :: "rat \<Rightarrow> jsnum" where
  "toDouble q =
     (if q = 0 then Finite 0
      else let a = \<bar>q\<bar>; e = max (binaryExponent a) (- 1022); ulp = 2 powi (e - 52);
               v = of_int (roundHalfEven (a / ulp)) * ulp
           in if 2 ^ 1024 \<le> v then (if q < 0 then MinusInfinity else PlusInfinity)
              else Finite (if q < 0 then - v else v))"

subsection \<open>Texts: case, white space, digits\<close>

text \<open>
  \<^verbatim>\<open>toUpperCase\<close> is modelled on the letters \<^verbatim>\<open>a\<close> to \<^verbatim>\<open>z\<close>; no other code unit below 256 is
  mapped to a text that occurs in one of the type names the validator compares with.
\<close>

definition toUpperChar :: "char \<Rightarrow> char" where
  "toUpperChar c =
     (case map_of (zip ''abcdefghijklmnopqrstuvwxyz'' ''ABCDEFGHIJKLMNOPQRSTUVWXYZ'') c of
        Some u \<Rightarrow> u
      | None \<Rightarrow> c)"

definition toUpperCase :: "string \<Rightarrow> string" where
  "toUpperCase s = map toUpperChar s"

definition isWhiteSpace :: "char \<Rightarrow> bool" where
  "isWhiteSpace c = ((of_char c :: nat) \<in> {9, 10, 11, 12, 13, 32, 160})"

definition trimStart :: "string \<Rightarrow> string" where
  "trimStart s = dropWhile isWhiteSpace s"

definition trim :: "string \<Rightarrow> string" where
  "trim s = rev (dropWhile isWhiteSpace (rev (dropWhile isWhiteSpace s)))"

definition isDecimalDigit :: "char \<Rightarrow> bool" where
  "isDecimalDigit c = (48 \<le> (of_char c :: nat) \<and> (of_char c :: nat) \<le> 57)"

definition digitValue :: "char \<Rightarrow> nat" where
  "digitValue c =
     (let n = (of_char c :: nat) in
      if 48 \<le> n \<and> n \<le> 57 then n - 48
      else if 97 \<le> n \<and> n \<le> 102 then n - 87
      else if 65 \<le> n \<and> n \<le> 70 then n - 55
      else 16)"

definition digitsValue :: "nat \<Rightarrow> string \<Rightarrow> nat" where
  "digitsValue radix ds = foldl (\<lambda>n c. radix * n + digitValue c) 0 ds"

subsection \<open>Numeric texts\<close>

text \<open>
  \<^verbatim>\<open>scanStrDecimalLiteral\<close> reads the longest prefix that is a \<^verbatim>\<open>StrDecimalLiteral\<close> of the language
  definition: an optional sign, then \<^verbatim>\<open>Infinity\<close> or decimal digits with an optional fraction and
  an optional exponent. It gives the number read and the rest of the text.
\<close>

definition scanSign :: "string \<Rightarrow> bool \<times> string" where
  "scanSign s =
     (case s of
        [] \<Rightarrow> (False, s)
      | c # r \<Rightarrow> if c = CHR ''-'' then (True, r) else if c = CHR ''+'' then (False, r) else (False, s))"

definition scanExponent :: "string \<Rightarrow> int \<times> string" where
  "scanExponent s =
     (case s of
        [] \<Rightarrow> (0, s)
      | c # r \<Rightarrow>
          if c = CHR ''e'' \<or> c = CHR ''E'' then
            (let (neg, r1) = scanSign r; ds = takeWhile isDecimalDigit r1 in
             if ds = [] then (0, s)
             else (if neg then - int (digitsValue 10 ds) else int (digitsValue 10 ds),
                   dropWhile isDecimalDigit r1))
          else (0, s))"

definition scanFraction :: "string \<Rightarrow> string \<Rightarrow> string \<times> string" where
  "scanFraction ip s =
     (case s of
        [] \<Rightarrow> ([], s)
      | c # r \<Rightarrow>
          if c = CHR ''.'' \<and> (ip \<noteq> [] \<or> takeWhile isDecimalDigit r \<noteq> [])
          then (takeWhile isDecimalDigit r, dropWhile isDecimalDigit r)
          else ([], s))"

definition scanStrDecimalLiteral :: "string \<Rightarrow> (jsnum \<times> string) option" where
  "scanStrDecimalLiteral s =
     (let (neg, s1) = scanSign s in
      if take 8 s1 = ''Infinity'' then Some (if neg then MinusInfinity else PlusInfinity, drop 8 s1)
      else
        let ip = takeWhile isDecimalDigit s1;
            (fp, s3) = scanFraction ip (dropWhile isDecimalDigit s1)
        in if ip = [] \<and> fp = [] then None
           else
             let (ex, s4) = scanExponent s3;
                 mv = of_nat (digitsValue 10 (ip @ fp)) * 10 powi (ex - int (length fp))
             in Some (toDouble (if neg then - mv else mv), s4))"

text \<open>The literals \<^verbatim>\<open>0x\<close>, \<^verbatim>\<open>0o\<close> and \<^verbatim>\<open>0b\<close>, which only \<^verbatim>\<open>Number\<close> reads; they take no sign.\<close>

definition scanNonDecimal :: "string \<Rightarrow> jsnum option" where
  "scanNonDecimal s =
     (case s of
        z # x # ds \<Rightarrow>
          (let radix = (if x = CHR ''x'' \<or> x = CHR ''X'' then 16
                        else if x = CHR ''o'' \<or> x = CHR ''O'' then 8
                        else if x = CHR ''b'' \<or> x = CHR ''B'' then 2 else 0)
           in if z = CHR ''0'' \<and> radix \<noteq> 0 \<and> ds \<noteq> [] \<and> (\<forall>d \<in> set ds. digitValue d < radix)
              then Some (toDouble (of_nat (digitsValue radix ds)))
              else None)
      | _ \<Rightarrow> None)"

definition StringToNumber :: "string \<Rightarrow> jsnum" where
  "StringToNumber s =
     (let t = trim s in
      if t = [] then Finite 0
      else case scanNonDecimal t of
             Some x \<Rightarrow> x
           | None \<Rightarrow> (case scanStrDecimalLiteral t of Some (x, []) \<Rightarrow> x | _ \<Rightarrow> NaN))"

subsection \<open>Conversions and tests of the language\<close>

fun joinComma :: "string list \<Rightarrow> string" where
  "joinComma [] = []"
| "joinComma [x] = x"
| "joinComma (x # y # ys) = x @ '','' @ joinComma (y # ys)"

fun ToString :: "runtime \<Rightarrow> json \<Rightarrow> string" where
  "ToString rt JNull = ''null''"
| "ToString rt (JBool b) = (if b then ''true'' else ''false'')"
| "ToString rt (JNum q) = numberToString rt q"
| "ToString rt (JStr s) = s"
| "ToString rt (JArr xs) = joinComma (map (\<lambda>x. if x = JNull then [] else ToString rt x) xs)"
| "ToString rt (JObj kvs) = ''[object Object]''"

fun Number :: "runtime \<Rightarrow> json \<Rightarrow> jsnum" where
  "Number rt JNull = Finite 0"
| "Number rt (JBool b) = (if b then Finite 1 else Finite 0)"
| "Number rt (JNum q) = Finite q"
| "Number rt (JStr s) = StringToNumber s"
| "Number rt (JArr xs) = StringToNumber (ToString rt (JArr xs))"
| "Number rt (JObj kvs) = StringToNumber (ToString rt (JObj kvs))"

definition parseFloat :: "runtime \<Rightarrow> json \<Rightarrow> jsnum" where
  "parseFloat rt val =
     (case scanStrDecimalLiteral (trimStart (ToString rt val)) of
        None \<Rightarrow> NaN
      | Some (x, rest) \<Rightarrow> x)"

definition Date_parse :: "runtime \<Rightarrow> json \<Rightarrow> jsnum" where
  "Date_parse rt val = dateParse rt (ToString rt val)"

fun isNaN :: "jsnum \<Rightarrow> bool" where
  "isNaN NaN = True"
| "isNaN x = False"

fun isInteger :: "jsnum \<Rightarrow> bool" where
  "isInteger (Finite q) = (of_int \<lfloor>q\<rfloor> = q)"
| "isInteger x = False"

fun typeof :: "json \<Rightarrow> string" where
  "typeof (JBool b) = ''boolean''"
| "typeof (JNum q) = ''number''"
| "typeof (JStr s) = ''string''"
| "typeof x = ''object''"

subsection \<open>\<^verbatim>\<open>validateDataType\<close>\<close>

definition validateDataType :: "runtime \<Rightarrow> json \<Rightarrow> string \<Rightarrow> bool" where
  "validateDataType rt val data_type =
     (let t = toUpperCase data_type in
      if t = ''INT'' then isInteger (Number rt val)
      else if t = ''FLOAT'' then \<not> isNaN (parseFloat rt val)
      else if t = ''VARCHAR'' \<or> t = ''TEXT'' then typeof val = ''string''
      else if t = ''BOOLEAN'' then val = JStr ''true'' \<or> val = JStr ''false'' \<or> typeof val = ''boolean''
      else if t = ''DATE'' \<or> t = ''DATETIME'' then \<not> isNaN (Date_parse rt val)
      else False)"

subsection \<open>The store\<close>

text \<open>
  The three tables the controller reads and writes through \<^verbatim>\<open>pool.execute\<close>. A table is the
  list of its rows in the order the store returns them. \<^verbatim>\<open>is_required\<close> is the truth value of
  the column; \<^verbatim>\<open>default_value\<close> is \<^term>\<open>JNull\<close> when the column is \<^verbatim>\<open>NULL\<close>. The store numbers
  new documents from \<^verbatim>\<open>next_data_id\<close>.
\<close>

record endpoint_row =
  endpoint_id :: nat
  user_id :: nat
  endpoint_name :: string

record field_row =
  field_endpoint_id :: nat
  field_name :: string
  data_type :: string
  is_required :: bool
  default_value :: json

record storage_row =
  data_id :: nat
  data_endpoint_id :: nat
  data :: "(string \<times> json) list"

record db =
  api_endpoints :: "endpoint_row list"
  fields_table :: "field_row list"
  data_storage :: "storage_row list"
  next_data_id :: nat

text \<open>
  A call of \<^verbatim>\<open>pool.execute\<close> may throw. The list \<open>faults\<close> says which calls of one request do:
  each call takes the head of the list, and throws iff it is \<^term>\<open>True\<close>; on the empty list no call
  throws. A statement that throws leaves the tables as they were.
\<close>

definition pool_execute :: "bool list \<Rightarrow> 'a \<Rightarrow> 'a option \<times> bool list" where
  "pool_execute faults result =
     (case faults of
        [] \<Rightarrow> (Some result, [])
      | f # rest \<Rightarrow> (if f then None else Some result, rest))"

text \<open>\<^verbatim>\<open>SELECT * FROM api_endpoints WHERE endpoint_name = ? AND user_id = ?\<close>\<close>

definition select_endpoints :: "db \<Rightarrow> string \<Rightarrow> nat \<Rightarrow> endpoint_row list" where
  "select_endpoints d name uid =
     filter (\<lambda>e. endpoint_name e = name \<and> user_id e = uid) (api_endpoints d)"

text \<open>\<^verbatim>\<open>SELECT * FROM fields WHERE endpoint_id = ?\<close>\<close>

definition select_fields :: "db \<Rightarrow> nat \<Rightarrow> field_row list" where
  "select_fields d eid = filter (\<lambda>f. field_endpoint_id f = eid) (fields_table d)"

text \<open>\<^verbatim>\<open>SELECT data_id, data FROM data_storage WHERE endpoint_id = ?\<close>\<close>

definition select_data :: "db \<Rightarrow> nat \<Rightarrow> storage_row list" where
  "select_data d eid = filter (\<lambda>r. data_endpoint_id r = eid) (data_storage d)"

text \<open>The condition \<^verbatim>\<open>WHERE data_id = ? AND endpoint_id = ?\<close> of the three statements on one document.\<close>

definition matches :: "runtime \<Rightarrow> string \<Rightarrow> nat \<Rightarrow> storage_row \<Rightarrow> bool" where
  "matches rt identifier eid r = (sqlIdEquals rt (data_id r) identifier \<and> data_endpoint_id r = eid)"

definition select_existing :: "runtime \<Rightarrow> db \<Rightarrow> string \<Rightarrow> nat \<Rightarrow> storage_row list" where
  "select_existing rt d identifier eid = filter (matches rt identifier eid) (data_storage d)"

text \<open>\<^verbatim>\<open>INSERT INTO data_storage (endpoint_id, data) VALUES (?, ?)\<close>\<close>

definition insert_data :: "db \<Rightarrow> nat \<Rightarrow> (string \<times> json) list \<Rightarrow> db" where
  "insert_data d eid payload =
     d\<lparr>data_storage :=
          data_storage d @ [\<lparr>data_id = next_data_id d, data_endpoint_id = eid, data = payload\<rparr>],
        next_data_id := Suc (next_data_id d)\<rparr>"

text \<open>\<^verbatim>\<open>UPDATE data_storage SET data = ? WHERE data_id = ? AND endpoint_id = ?\<close>\<close>

definition update_data :: "runtime \<Rightarrow> db \<Rightarrow> (string \<times> json) list \<Rightarrow> string \<Rightarrow> nat \<Rightarrow> db" where
  "update_data rt d payload identifier eid =
     d\<lparr>data_storage :=
          map (\<lambda>r. if matches rt identifier eid r then r\<lparr>data := payload\<rparr> else r) (data_storage d)\<rparr>"

text \<open>\<^verbatim>\<open>DELETE FROM data_storage WHERE data_id = ? AND endpoint_id = ?\<close>, with \<^verbatim>\<open>affectedRows\<close>.\<close>

definition delete_data :: "runtime \<Rightarrow> db \<Rightarrow> string \<Rightarrow> nat \<Rightarrow> nat \<times> db" where
  "delete_data rt d identifier eid =
     (length (filter (matches rt identifier eid) (data_storage d)),
      d\<lparr>data_storage := filter (\<lambda>r. \<not> matches rt identifier eid r) (data_storage d)\<rparr>)"

subsection \<open>Requests and responses\<close>

text \<open>
  What the handlers read of a request: \<^verbatim>\<open>req.user.user_id\<close>, \<^verbatim>\<open>req.params.endpoint_name\<close>,
  \<^verbatim>\<open>req.method\<close>, the parsed JSON object \<^verbatim>\<open>req.body\<close>, and \<^verbatim>\<open>req.query.id\<close>, absent or a text.
\<close>

record request =
  req_user_id :: nat
  req_endpoint_name :: string
  req_method :: string
  req_body :: "(string \<times> json) list"
  req_query_id :: "string option"

record response =
  status :: nat
  json_body :: json

definition message :: "string \<Rightarrow> json" where
  "message m = JObj [(''message'', JStr m)]"

definition server_error :: response where
  "server_error = \<lparr>status = 500, json_body = message ''Server error.''\<rparr>"

definition required_message :: "string \<Rightarrow> string" where
  "required_message name = ''Field '' @ [CHR 0x27] @ name @ [CHR 0x27] @ '' is required.''"

definition invalid_type_message :: "string \<Rightarrow> string \<Rightarrow> string" where
  "invalid_type_message name ty =
     ''Invalid data type for field '' @ [CHR 0x27] @ name @ [CHR 0x27] @ ''. Expected '' @ ty @ ''.''"

text \<open>\<^verbatim>\<open>value === undefined || value === null || value === \<close> the empty text.\<close>

definition blank :: "json option \<Rightarrow> bool" where
  "blank val = (val = None \<or> val = Some JNull \<or> val = Some (JStr []))"

text \<open>\<^verbatim>\<open>!identifier\<close> on \<^verbatim>\<open>req.query.id\<close>: absent, or the empty text.\<close>

definition falsy :: "string option \<Rightarrow> bool" where
  "falsy identifier = (identifier = None \<or> identifier = Some [])"

subsection \<open>\<^verbatim>\<open>handleCreate\<close>\<close>

text \<open>
  The loop over the schema builds \<^verbatim>\<open>jsonData\<close>; a \<^verbatim>\<open>return res.status(400)\<close> inside it is the
  result \<^term>\<open>Inl\<close> of the response. Where the guard of the second \<^verbatim>\<open>if\<close> holds the value is
  not \<^verbatim>\<open>undefined\<close>, so \<^term>\<open>the val\<close> is the value read.
\<close>

fun createLoop ::
  "runtime \<Rightarrow> (string \<times> json) list \<Rightarrow> field_row list \<Rightarrow> (string \<times> json) list
     \<Rightarrow> response + (string \<times> json) list" where
  "createLoop rt body [] jsonData = Inr jsonData"
| "createLoop rt body (field # rest) jsonData =
     (let val = map_of body (field_name field) in
      if is_required field \<and> blank val then
        Inl \<lparr>status = 400, json_body = message (required_message (field_name field))\<rparr>
      else if \<not> blank val then
        (if \<not> validateDataType rt (the val) (data_type field) then
           Inl \<lparr>status = 400,
                json_body = message (invalid_type_message (field_name field) (data_type field))\<rparr>
         else createLoop rt body rest (AList.update (field_name field) (the val) jsonData))
      else if default_value field \<noteq> JNull then
        createLoop rt body rest (AList.update (field_name field) (default_value field) jsonData)
      else createLoop rt body rest jsonData)"

definition handleCreate ::
  "runtime \<Rightarrow> bool list \<Rightarrow> db \<Rightarrow> request \<Rightarrow> nat \<Rightarrow> field_row list \<Rightarrow> response \<times> db" where
  "handleCreate rt faults d req eid flds =
     (case createLoop rt (req_body req) flds [] of
        Inl res \<Rightarrow> (res, d)
      | Inr jsonData \<Rightarrow>
          (case pool_execute faults (insert_data d eid jsonData) of
             (None, faults') \<Rightarrow> (server_error, d)
           | (Some d', faults') \<Rightarrow>
               (\<lparr>status = 201, json_body = message ''Data created successfully.''\<rparr>, d')))"

subsection \<open>\<^verbatim>\<open>handleRead\<close>\<close>

text \<open>
  The object literal \<^verbatim>\<open>{ data_id: row.data_id, ...parsedData }\<close>: the property \<^verbatim>\<open>data_id\<close> is
  defined first, then each property of the payload is defined on the same object, in order.
\<close>

definition spread :: "(string \<times> json) list \<Rightarrow> (string \<times> json) list \<Rightarrow> (string \<times> json) list" where
  "spread obj src = foldl (\<lambda>acc (k, v). AList.update k v acc) obj src"

definition readRow :: "storage_row \<Rightarrow> json" where
  "readRow row = JObj (spread [(''data_id'', JNum (of_nat (data_id row)))] (data row))"

definition handleRead ::
  "runtime \<Rightarrow> bool list \<Rightarrow> db \<Rightarrow> request \<Rightarrow> nat \<Rightarrow> field_row list \<Rightarrow> response \<times> db" where
  "handleRead rt faults d req eid flds =
     (case pool_execute faults (select_data d eid) of
        (None, faults') \<Rightarrow> (server_error, d)
      | (Some rows, faults') \<Rightarrow> (\<lparr>status = 200, json_body = JArr (map readRow rows)\<rparr>, d))"

subsection \<open>\<^verbatim>\<open>handleUpdate\<close>\<close>

fun updateLoop ::
  "runtime \<Rightarrow> (string \<times> json) list \<Rightarrow> field_row list \<Rightarrow> (string \<times> json) list
     \<Rightarrow> response + (string \<times> json) list" where
  "updateLoop rt body [] existingData = Inr existingData"
| "updateLoop rt body (field # rest) existingData =
     (case map_of body (field_name field) of
        None \<Rightarrow> updateLoop rt body rest existingData
      | Some val \<Rightarrow>
          if \<not> validateDataType rt val (data_type field) then
            Inl \<lparr>status = 400,
                 json_body = message (invalid_type_message (field_name field) (data_type field))\<rparr>
          else updateLoop rt body rest (AList.update (field_name field) val existingData))"

text \<open>
  The first \<^verbatim>\<open>pool.execute\<close> of \<^verbatim>\<open>handleUpdate\<close> stands outside its \<^verbatim>\<open>try\<close>; when it throws,
  the \<^verbatim>\<open>catch\<close> of \<^verbatim>\<open>handleRequest\<close> answers, with the same response.
\<close>

definition handleUpdate ::
  "runtime \<Rightarrow> bool list \<Rightarrow> db \<Rightarrow> request \<Rightarrow> nat \<Rightarrow> field_row list \<Rightarrow> response \<times> db" where
  "handleUpdate rt faults d req eid flds =
     (if falsy (req_query_id req) then
        (\<lparr>status = 400, json_body = message ''Data ID is required for update.''\<rparr>, d)
      else
        let identifier = the (req_query_id req) in
        case pool_execute faults (select_existing rt d identifier eid) of
          (None, faults') \<Rightarrow> (server_error, d)
        | (Some existingRows, faults') \<Rightarrow>
            (case existingRows of
               [] \<Rightarrow> (\<lparr>status = 404, json_body = message ''Data not found.''\<rparr>, d)
             | row # others \<Rightarrow>
                 (case updateLoop rt (req_body req) flds (data row) of
                    Inl res \<Rightarrow> (res, d)
                  | Inr existingData \<Rightarrow>
                      (case pool_execute faults' (update_data rt d existingData identifier eid) of
                         (None, faults'') \<Rightarrow> (server_error, d)
                       | (Some d', faults'') \<Rightarrow>
                           (\<lparr>status = 200, json_body = message ''Data updated successfully.''\<rparr>,
                            d')))))"

subsection \<open>\<^verbatim>\<open>handleDelete\<close>\<close>

definition handleDelete ::
  "runtime \<Rightarrow> bool list \<Rightarrow> db \<Rightarrow> request \<Rightarrow> nat \<Rightarrow> field_row list \<Rightarrow> response \<times> db" where
  "handleDelete rt faults d req eid flds =
     (if falsy (req_query_id req) then
        (\<lparr>status = 400, json_body = message ''Data ID is required for deletion.''\<rparr>, d)
      else
        let identifier = the (req_query_id req) in
        case pool_execute faults (delete_data rt d identifier eid) of
          (None, faults') \<Rightarrow> (server_error, d)
        | (Some (affectedRows, d'), faults') \<Rightarrow>
            if affectedRows = 0 then (\<lparr>status = 404, json_body = message ''Data not found.''\<rparr>, d)
            else (\<lparr>status = 200, json_body = message ''Data deleted successfully.''\<rparr>, d'))"

subsection \<open>\<^verbatim>\<open>handleRequest\<close>\<close>

definition handleRequest :: "runtime \<Rightarrow> bool list \<Rightarrow> db \<Rightarrow> request \<Rightarrow> response \<times> db" where
  "handleRequest rt faults d req =
     (let uid = req_user_id req;
          name = req_endpoint_name req;
          http_method = toUpperCase (req_method req)
      in case pool_execute faults (select_endpoints d name uid) of
           (None, faults1) \<Rightarrow> (server_error, d)
         | (Some endpoints, faults1) \<Rightarrow>
             (case endpoints of
                [] \<Rightarrow> (\<lparr>status = 404, json_body = message ''API endpoint not found.''\<rparr>, d)
              | endpoint # others \<Rightarrow>
                  (case pool_execute faults1 (select_fields d (endpoint_id endpoint)) of
                     (None, faults2) \<Rightarrow> (server_error, d)
                   | (Some flds, faults2) \<Rightarrow>
                       if http_method = ''GET'' then
                         handleRead rt faults2 d req (endpoint_id endpoint) flds
                       else if http_method = ''POST'' then
                         handleCreate rt faults2 d req (endpoint_id endpoint) flds
                       else if http_method = ''PUT'' then
                         handleUpdate rt faults2 d req (endpoint_id endpoint) flds
                       else if http_method = ''DELETE'' then
                         handleDelete rt faults2 d req (endpoint_id endpoint) flds
                       else (\<lparr>status = 405, json_body = message ''Method Not Allowed''\<rparr>, d))))"

section \<open>Notions used to state the properties\<close>

text \<open>A call of \<^verbatim>\<open>pool.execute\<close> that meets this list of faults returns.\<close>

definition callSucceeds :: "bool list \<Rightarrow> bool" where
  "callSucceeds faults = (case faults of [] \<Rightarrow> True | f # rest \<Rightarrow> \<not> f)"

text \<open>
  A text that begins with a decimal literal: after an optional sign comes \<^verbatim>\<open>Infinity\<close>, a
  digit, or a point followed by a digit.
\<close>

definition startsDecimalLiteral :: "string \<Rightarrow> bool" where
  "startsDecimalLiteral s =
     (let u = (case s of [] \<Rightarrow> s | c # r \<Rightarrow> if c = CHR ''+'' \<or> c = CHR ''-'' then r else s) in
      take 8 u = ''Infinity''
      \<or> (case u of
            [] \<Rightarrow> False
          | c # r \<Rightarrow>
              isDecimalDigit c
              \<or> (c = CHR ''.'' \<and> (case r of [] \<Rightarrow> False | c' # r' \<Rightarrow> isDecimalDigit c'))))"




subsection \<open>A platform and a store for the closed examples\<close>

text \<open>
  The example platform prints a number as the decimal text of its integer part (which is the
  text of the language on the natural numbers below \<open>10 ^ 21\<close>), knows no date, and compares
  \<^verbatim>\<open>data_id\<close> with the value of a parameter written in decimal digits.
\<close>

function natText :: "nat \<Rightarrow> string" where
  "natText n =
     (if n < 10 then [''0123456789'' ! n]
      else natText (n div 10) @ [''0123456789'' ! (n mod 10)])"
  by pat_completeness auto
termination
  by (relation "measure id") auto

declare natText.simps [simp del]

definition exampleRuntime :: runtime where
  "exampleRuntime =
     \<lparr>numberToString = (\<lambda>q. (if q < 0 then ''-'' else []) @ natText (nat \<lfloor>\<bar>q\<bar>\<rfloor>)),
      dateParse = (\<lambda>s. NaN),
      sqlIdEquals = (\<lambda>n s. s \<noteq> [] \<and> list_all isDecimalDigit s \<and> digitsValue 10 s = n)\<rparr>"

definition exampleDb :: db where
  "exampleDb =
     \<lparr>api_endpoints = [\<lparr>endpoint_id = 5, user_id = 1, endpoint_name = ''pets''\<rparr>],
      fields_table =
        [\<lparr>field_endpoint_id = 5, field_name = ''a'', data_type = ''INT'', is_required = True,
          default_value = JStr ''0''\<rparr>,
         \<lparr>field_endpoint_id = 5, field_name = ''b'', data_type = ''int'', is_required = False,
          default_value = JNull\<rparr>],
      data_storage =
        [\<lparr>data_id = 7, data_endpoint_id = 5, data = [(''a'', JNum 1), (''b'', JNum 2)]\<rparr>],
      next_data_id = 8\<rparr>"

definition exampleRequest :: request where
  "exampleRequest =
     \<lparr>req_user_id = 1, req_endpoint_name = ''pets'', req_method = ''PUT'',
      req_body = [(''b'', JNum 3)], req_query_id = Some ''7''\<rparr>"

definition collisionDb :: db where
  "collisionDb =
     \<lparr>api_endpoints = [\<lparr>endpoint_id = 5, user_id = 1, endpoint_name = ''pets''\<rparr>],
      fields_table =
        [\<lparr>field_endpoint_id = 5, field_name = ''data_id'', data_type = ''INT'',
          is_required = True, default_value = JNull\<rparr>],
      data_storage = [],
      next_data_id = 1\<rparr>"




section \<open>Auxiliary facts\<close>

subsection \<open>The store and the dispatcher\<close>

lemma pool_execute_succeeds:
  "callSucceeds faults \<Longrightarrow> pool_execute faults r = (Some r, tl faults)"
  by (cases faults) (simp_all add: callSucceeds_def pool_execute_def)

lemma pool_execute_throws:
  "\<not> callSucceeds faults \<Longrightarrow> fst (pool_execute faults r) = None"
  by (cases faults) (simp_all add: callSucceeds_def pool_execute_def)

lemma pool_execute_cases:
  "pool_execute faults r = (None, tl faults) \<or> pool_execute faults r = (Some r, tl faults)"
  by (cases faults) (simp_all add: pool_execute_def)

lemma pool_execute_Some:
  "pool_execute faults r = (Some x, fs) \<Longrightarrow> x = r"
  by (cases faults) (auto simp: pool_execute_def split: if_splits)

lemma createLoop_status:
  "createLoop rt body flds acc = Inl res \<Longrightarrow> status res = 400"
  by (induction flds arbitrary: acc) (auto simp: Let_def split: if_splits)

lemma updateLoop_status:
  "updateLoop rt body flds acc = Inl res \<Longrightarrow> status res = 400"
  by (induction flds arbitrary: acc) (auto split: option.splits if_splits)

lemma handleCreate_status:
  "status (fst (handleCreate rt faults d req eid flds)) \<in> {201, 400, 500}"
  using pool_execute_cases [of faults "insert_data d eid jd" for jd]
  by (auto simp: handleCreate_def server_error_def dest: createLoop_status split: sum.splits prod.splits option.splits)

lemma handleRead_status:
  "status (fst (handleRead rt faults d req eid flds)) \<in> {200, 500}"
  by (auto simp: handleRead_def server_error_def split: prod.splits option.splits)

lemma handleUpdate_status:
  "status (fst (handleUpdate rt faults d req eid flds)) \<in> {200, 400, 404, 500}"
  by (auto simp: handleUpdate_def server_error_def Let_def dest: updateLoop_status
      split: sum.splits prod.splits option.splits list.splits)

lemma handleDelete_status:
  "status (fst (handleDelete rt faults d req eid flds)) \<in> {200, 400, 404, 500}"
  by (auto simp: handleDelete_def server_error_def Let_def split: prod.splits option.splits)

lemma select_endpoints_empty:
  "select_endpoints d name uid = [] \<longleftrightarrow>
     \<not> (\<exists>e \<in> set (api_endpoints d). endpoint_name e = name \<and> user_id e = uid)"
  by (auto simp: select_endpoints_def filter_empty_conv)

lemma handleRequest_unresolved:
  assumes "select_endpoints d (req_endpoint_name req) (req_user_id req) = []"
  shows "handleRequest rt faults d req =
           (if callSucceeds faults
            then (\<lparr>status = 404, json_body = message ''API endpoint not found.''\<rparr>, d)
            else (server_error, d))"
  using assms by (cases faults) (simp_all add: handleRequest_def pool_execute_def callSucceeds_def)

lemma handleRequest_405:
  assumes "status (fst (handleRequest rt faults d req)) = 405"
  shows "select_endpoints d (req_endpoint_name req) (req_user_id req) \<noteq> []
         \<and> toUpperCase (req_method req) \<notin> {''GET'', ''POST'', ''PUT'', ''DELETE''}"
proof -
  have R: "status (fst (handleRead rt fs d req eid flds)) \<noteq> 405" for fs eid flds
    using handleRead_status [of rt fs d req eid flds] by auto
  have C: "status (fst (handleCreate rt fs d req eid flds)) \<noteq> 405" for fs eid flds
    using handleCreate_status [of rt fs d req eid flds] by auto
  have U: "status (fst (handleUpdate rt fs d req eid flds)) \<noteq> 405" for fs eid flds
    using handleUpdate_status [of rt fs d req eid flds] by auto
  have D: "status (fst (handleDelete rt fs d req eid flds)) \<noteq> 405" for fs eid flds
    using handleDelete_status [of rt fs d req eid flds] by auto
  show ?thesis
    using assms R C U D
    by (auto simp: handleRequest_def Let_def server_error_def dest!: pool_execute_Some
        split: prod.splits option.splits list.splits if_splits)
qed

lemma handleRequest_other_verb:
  assumes "select_endpoints d (req_endpoint_name req) (req_user_id req) \<noteq> []"
    and "callSucceeds faults" and "callSucceeds (tl faults)"
    and "toUpperCase (req_method req) \<notin> {''GET'', ''POST'', ''PUT'', ''DELETE''}"
  shows "handleRequest rt faults d req = (\<lparr>status = 405, json_body = message ''Method Not Allowed''\<rparr>, d)"
  using assms
  by (auto simp: handleRequest_def Let_def pool_execute_succeeds split: list.splits)

subsection \<open>The validator\<close>


lemma typeof_string: "typeof v = ''string'' \<longleftrightarrow> (\<exists>s. v = JStr s)"
  by (cases v) simp_all



lemma validate_FLOAT:
  "toUpperCase ty = ''FLOAT'' \<Longrightarrow> validateDataType rt v ty \<longleftrightarrow> \<not> isNaN (parseFloat rt v)"
  by (simp add: validateDataType_def)


lemma takeWhile_Nil_iff: "takeWhile P xs = [] \<longleftrightarrow> (case xs of [] \<Rightarrow> True | x # r \<Rightarrow> \<not> P x)"
  by (cases xs) simp_all

lemma toDouble_not_NaN: "toDouble q \<noteq> NaN"
  by (simp add: toDouble_def Let_def)

lemma scanSign_rest:
  "snd (scanSign s) = (case s of [] \<Rightarrow> s | c # r \<Rightarrow> if c = CHR ''+'' \<or> c = CHR ''-'' then r else s)"
  by (auto simp: scanSign_def split: list.splits)

lemma no_digits_iff:
  assumes "scanFraction (takeWhile isDecimalDigit u) (dropWhile isDecimalDigit u) = (fp, s3)"
  shows "takeWhile isDecimalDigit u = [] \<and> fp = [] \<longleftrightarrow>
         \<not> (case u of
              [] \<Rightarrow> False
            | c # r \<Rightarrow>
                isDecimalDigit c
                \<or> (c = CHR ''.'' \<and> (case r of [] \<Rightarrow> False | c' # r' \<Rightarrow> isDecimalDigit c')))"
proof (cases u)
  case Nil
  with assms show ?thesis by (simp add: scanFraction_def)
next
  case (Cons c r)
  show ?thesis
  proof (cases "isDecimalDigit c")
    case True
    with Cons show ?thesis by simp
  next
    case False
    with Cons assms show ?thesis
      by (cases r) (auto simp: scanFraction_def split: if_splits)
  qed
qed

lemma scanStrDecimalLiteral_None_iff:
  "scanStrDecimalLiteral s = None \<longleftrightarrow> \<not> startsDecimalLiteral s"
proof -
  obtain neg s1 where S: "scanSign s = (neg, s1)" by (cases "scanSign s")
  obtain fp s3 where
    F: "scanFraction (takeWhile isDecimalDigit s1) (dropWhile isDecimalDigit s1) = (fp, s3)"
    by (cases "scanFraction (takeWhile isDecimalDigit s1) (dropWhile isDecimalDigit s1)")
  have U: "(case s of [] \<Rightarrow> s | c # r \<Rightarrow> if c = CHR ''+'' \<or> c = CHR ''-'' then r else s) = s1"
    using S scanSign_rest [of s] by simp
  have "scanStrDecimalLiteral s = None \<longleftrightarrow>
          take 8 s1 \<noteq> ''Infinity'' \<and> takeWhile isDecimalDigit s1 = [] \<and> fp = []"
    using S F by (simp add: scanStrDecimalLiteral_def Let_def split: prod.splits)
  also have "\<dots> \<longleftrightarrow> \<not> startsDecimalLiteral s"
    unfolding startsDecimalLiteral_def Let_def U
    using no_digits_iff [OF F] by blast
  finally show ?thesis .
qed

lemma parseFloat_NaN_iff:
  "isNaN (parseFloat rt v) \<longleftrightarrow> \<not> startsDecimalLiteral (trimStart (ToString rt v))"
proof (cases "scanStrDecimalLiteral (trimStart (ToString rt v))")
  case None
  then show ?thesis
    using scanStrDecimalLiteral_None_iff [of "trimStart (ToString rt v)"]
    by (simp add: parseFloat_def)
next
  case (Some p)
  obtain x rest where P: "p = (x, rest)" by (cases p)
  have "x \<noteq> NaN"
    using Some P
    by (auto simp: scanStrDecimalLiteral_def Let_def toDouble_not_NaN
        split: prod.splits if_splits)
  then have "\<not> isNaN x" by (cases x) simp_all
  then show ?thesis
    using Some P scanStrDecimalLiteral_None_iff [of "trimStart (ToString rt v)"]
    by (simp add: parseFloat_def)
qed

lemma toDouble_exact:
  assumes "q \<noteq> 0"
    and "max (binaryExponent \<bar>q\<bar>) (- 1022) = e"
    and "\<bar>q\<bar> = of_int m * 2 powi (e - 52)"
    and "\<bar>q\<bar> < 2 ^ 1024"
  shows "toDouble q = Finite q"
proof -
  let ?ulp = "(2::rat) powi (e - 52)"
  have ulp: "?ulp \<noteq> 0" by simp
  have "roundHalfEven (of_int m) = m"
    by (simp add: roundHalfEven_def)
  then have "of_int (roundHalfEven (\<bar>q\<bar> / ?ulp)) * ?ulp = \<bar>q\<bar>"
    using assms(3) ulp by simp
  then show ?thesis
    using assms(1,2,4) by (cases "q < 0") (simp_all add: toDouble_def Let_def)
qed


lemma toDouble_3: "toDouble 3 = Finite 3"
proof (rule toDouble_exact)
  show "max (binaryExponent \<bar>3\<bar>) (- 1022) = 1"
    by (simp add: binaryExponent_def bitLength.simps)
  show "\<bar>3::rat\<bar> = of_int (3 * 2 ^ 51) * 2 powi (1 - 52)"
    by (simp add: power_int_minus)
qed simp_all


lemmas scan_eval =
  scanStrDecimalLiteral_def scanSign_def scanFraction_def scanExponent_def scanNonDecimal_def
  isDecimalDigit_def digitsValue_def digitValue_def StringToNumber_def trim_def trimStart_def
  isWhiteSpace_def




lemma parseFloat_Infinity: "parseFloat rt (JStr ''Infinity'') = PlusInfinity"
  by (simp add: parseFloat_def scan_eval)

lemma parseFloat_3abc: "parseFloat rt (JStr ''3abc'') = Finite 3"
  by (simp add: parseFloat_def scan_eval toDouble_3)

subsection \<open>The loops of create and update\<close>











lemma matches_data_update [simp]:
  "matches rt identifier eid (r\<lparr>data := p\<rparr>) = matches rt identifier eid r"
  by (simp add: matches_def)


lemma spread_lookup:
  "map_of (spread obj src) k =
     (case map_of (rev src) k of Some v \<Rightarrow> Some v | None \<Rightarrow> map_of obj k)"
proof (induction src arbitrary: obj)
  case Nil
  show ?case by (simp add: spread_def)
next
  case (Cons p src)
  obtain k' v' where P: "p = (k', v')" by (cases p)
  have "spread obj (p # src) = spread (AList.update k' v' obj) src"
    by (simp add: spread_def P)
  with Cons.IH [of "AList.update k' v' obj"] P show ?case
    by (auto simp: update_conv' map_add_def split: option.splits)
qed

lemma readRow_lookup:
  "\<exists>obj. readRow row = JObj obj
     \<and> (\<forall>k. map_of obj k =
            (case map_of (rev (data row)) k of
               Some v \<Rightarrow> Some v
             | None \<Rightarrow> if k = ''data_id'' then Some (JNum (of_nat (data_id row))) else None))"
  by (simp add: readRow_def spread_lookup split: option.splits)

subsection \<open>Evaluation of the examples\<close>

lemmas example_eval =
  exampleRuntime_def exampleDb_def exampleRequest_def collisionDb_def
  handleRequest_def handleCreate_def handleRead_def handleUpdate_def handleDelete_def
  pool_execute_def select_endpoints_def select_fields_def select_data_def select_existing_def
  insert_data_def update_data_def delete_data_def matches_def
  validateDataType_def toUpperCase_def toUpperChar_def blank_def falsy_def message_def
  required_message_def invalid_type_message_def readRow_def spread_def server_error_def
  callSucceeds_def isDecimalDigit_def digitsValue_def digitValue_def Let_def

subsection \<open>The handlers\<close>











section \<open>The properties\<close>

text \<open>
  C1. The property: each record of a read-all response is the union of the generated identity
  and the payload of the document, and the identity takes precedence over a payload key
  \<^verbatim>\<open>data_id\<close>. The controller keeps the union (\<open>readRow_lookup\<close>) but not the precedence: under
  a schema with a field \<^verbatim>\<open>data_id\<close> the body \<^verbatim>\<open>{"data_id": 99}\<close> is accepted, the store numbers
  the document 1, and the read returns \<^verbatim>\<open>[{"data_id": 99}]\<close>, in which the identity 1 is lost.
\<close>

theorem C1_read_payload_shadows_identity:
  "handleRequest exampleRuntime [] collisionDb
      \<lparr>req_user_id = 1, req_endpoint_name = ''pets'', req_method = ''POST'',
       req_body = [(''data_id'', JNum 99)], req_query_id = None\<rparr>
     = (\<lparr>status = 201, json_body = message ''Data created successfully.''\<rparr>,
        collisionDb\<lparr>data_storage :=
                       [\<lparr>data_id = 1, data_endpoint_id = 5, data = [(''data_id'', JNum 99)]\<rparr>],
                     next_data_id := 2\<rparr>)
   \<and> handleRequest exampleRuntime []
        (collisionDb\<lparr>data_storage :=
                       [\<lparr>data_id = 1, data_endpoint_id = 5, data = [(''data_id'', JNum 99)]\<rparr>],
                     next_data_id := 2\<rparr>)
        \<lparr>req_user_id = 1, req_endpoint_name = ''pets'', req_method = ''GET'',
         req_body = [], req_query_id = None\<rparr>
     = (\<lparr>status = 200, json_body = JArr [JObj [(''data_id'', JNum 99)]]\<rparr>,
        collisionDb\<lparr>data_storage :=
                       [\<lparr>data_id = 1, data_endpoint_id = 5, data = [(''data_id'', JNum 99)]\<rparr>],
                     next_data_id := 2\<rparr>)"
  by (simp add: example_eval)

text \<open>
  C2. An endpoint name that exists only for owner \<open>A\<close> resolves, under another identity \<open>B\<close>,
  exactly as a name that exists for nobody: the two results are equal for every verb, body and
  query, whatever the store does, and they are the 404 response with the store unchanged
  whenever the lookup returns.
\<close>

theorem C2_tenant_isolation:
  assumes "A \<noteq> B"
    and "\<forall>e \<in> set (api_endpoints d). endpoint_name e = X \<longrightarrow> user_id e = A"
    and "\<forall>e \<in> set (api_endpoints d). endpoint_name e \<noteq> Y"
  shows "handleRequest rt faults d (req\<lparr>req_user_id := B, req_endpoint_name := X\<rparr>)
           = handleRequest rt faults d (req\<lparr>req_user_id := B, req_endpoint_name := Y\<rparr>)
         \<and> (callSucceeds faults \<longrightarrow>
              handleRequest rt faults d (req\<lparr>req_user_id := B, req_endpoint_name := X\<rparr>)
                = (\<lparr>status = 404, json_body = message ''API endpoint not found.''\<rparr>, d))"
proof -
  have X: "select_endpoints d X B = []"
    using assms(1,2) by (auto simp: select_endpoints_empty)
  have Y: "select_endpoints d Y B = []"
    using assms(3) by (auto simp: select_endpoints_empty)
  show ?thesis
    using X Y by (simp add: handleRequest_unresolved)
qed

theorem C2_witness:
  "handleRequest exampleRuntime [] exampleDb
      (exampleRequest\<lparr>req_user_id := 2, req_endpoint_name := ''pets''\<rparr>)
     = handleRequest exampleRuntime [] exampleDb
         (exampleRequest\<lparr>req_user_id := 2, req_endpoint_name := ''cars''\<rparr>)
   \<and> handleRequest exampleRuntime [] exampleDb
        (exampleRequest\<lparr>req_user_id := 2, req_endpoint_name := ''pets''\<rparr>)
     = (\<lparr>status = 404, json_body = message ''API endpoint not found.''\<rparr>, exampleDb)
   \<and> map (\<lambda>e. (endpoint_name e, user_id e)) (api_endpoints exampleDb) = [(''pets'', 1)]"
proof -
  have h1: "(1::nat) \<noteq> 2" by simp
  have h2: "\<forall>e \<in> set (api_endpoints exampleDb). endpoint_name e = ''pets'' \<longrightarrow> user_id e = 1"
    by (simp add: exampleDb_def)
  have h3: "\<forall>e \<in> set (api_endpoints exampleDb). endpoint_name e \<noteq> ''cars''"
    by (simp add: exampleDb_def)
  have "map (\<lambda>e. (endpoint_name e, user_id e)) (api_endpoints exampleDb) = [(''pets'', 1)]"
    by (simp add: exampleDb_def)
  with C2_tenant_isolation [OF h1 h2 h3, of exampleRuntime "[]" exampleRequest]
  show ?thesis by (auto simp: callSucceeds_def)
qed

text \<open>
  C3. When the lookup returns: a name that does not resolve for the tenant gives 404 under every
  verb; a response 405 occurs only for a name that resolves and a verb other than GET, POST, PUT
  and DELETE; and it does occur for such a request when the lookup of the fields returns too.
\<close>

theorem C3_not_found_before_method_not_allowed:
  assumes "callSucceeds faults"
  shows "(\<not> (\<exists>e \<in> set (api_endpoints d).
              endpoint_name e = req_endpoint_name req \<and> user_id e = req_user_id req) \<longrightarrow>
            handleRequest rt faults d req
              = (\<lparr>status = 404, json_body = message ''API endpoint not found.''\<rparr>, d))
         \<and> (status (fst (handleRequest rt faults d req)) = 405 \<longrightarrow>
              (\<exists>e \<in> set (api_endpoints d).
                 endpoint_name e = req_endpoint_name req \<and> user_id e = req_user_id req)
              \<and> toUpperCase (req_method req) \<notin> {''GET'', ''POST'', ''PUT'', ''DELETE''})
         \<and> ((\<exists>e \<in> set (api_endpoints d).
                 endpoint_name e = req_endpoint_name req \<and> user_id e = req_user_id req)
              \<and> toUpperCase (req_method req) \<notin> {''GET'', ''POST'', ''PUT'', ''DELETE''}
              \<and> callSucceeds (tl faults) \<longrightarrow>
              handleRequest rt faults d req
                = (\<lparr>status = 405, json_body = message ''Method Not Allowed''\<rparr>, d))"
proof (intro conjI impI)
  assume "\<not> (\<exists>e \<in> set (api_endpoints d).
              endpoint_name e = req_endpoint_name req \<and> user_id e = req_user_id req)"
  then have "select_endpoints d (req_endpoint_name req) (req_user_id req) = []"
    by (simp add: select_endpoints_empty)
  then show "handleRequest rt faults d req
              = (\<lparr>status = 404, json_body = message ''API endpoint not found.''\<rparr>, d)"
    using assms by (simp add: handleRequest_unresolved)
next
  assume "status (fst (handleRequest rt faults d req)) = 405"
  from handleRequest_405 [OF this]
  show "\<exists>e \<in> set (api_endpoints d).
                 endpoint_name e = req_endpoint_name req \<and> user_id e = req_user_id req"
    and "toUpperCase (req_method req) \<notin> {''GET'', ''POST'', ''PUT'', ''DELETE''}"
    by (simp_all add: select_endpoints_empty)
next
  assume H: "(\<exists>e \<in> set (api_endpoints d).
                 endpoint_name e = req_endpoint_name req \<and> user_id e = req_user_id req)
              \<and> toUpperCase (req_method req) \<notin> {''GET'', ''POST'', ''PUT'', ''DELETE''}
              \<and> callSucceeds (tl faults)"
  then have "select_endpoints d (req_endpoint_name req) (req_user_id req) \<noteq> []"
    by (simp add: select_endpoints_empty)
  with H assms show "handleRequest rt faults d req
                = (\<lparr>status = 405, json_body = message ''Method Not Allowed''\<rparr>, d)"
    by (intro handleRequest_other_verb) simp_all
qed

theorem C3_witness:
  "handleRequest exampleRuntime [] exampleDb
      (exampleRequest\<lparr>req_endpoint_name := ''cars'', req_method := ''PATCH''\<rparr>)
     = (\<lparr>status = 404, json_body = message ''API endpoint not found.''\<rparr>, exampleDb)
   \<and> handleRequest exampleRuntime [] exampleDb (exampleRequest\<lparr>req_method := ''PATCH''\<rparr>)
     = (\<lparr>status = 405, json_body = message ''Method Not Allowed''\<rparr>, exampleDb)"
proof -
  have ok: "callSucceeds []" "callSucceeds (tl [])"
    by (simp_all add: callSucceeds_def)
  have unknown:
    "\<not> (\<exists>e \<in> set (api_endpoints exampleDb).
          endpoint_name e = req_endpoint_name (exampleRequest\<lparr>req_endpoint_name := ''cars'', req_method := ''PATCH''\<rparr>)
          \<and> user_id e = req_user_id (exampleRequest\<lparr>req_endpoint_name := ''cars'', req_method := ''PATCH''\<rparr>))"
    by (simp add: exampleDb_def)
  have known:
    "\<exists>e \<in> set (api_endpoints exampleDb).
          endpoint_name e = req_endpoint_name (exampleRequest\<lparr>req_method := ''PATCH''\<rparr>)
          \<and> user_id e = req_user_id (exampleRequest\<lparr>req_method := ''PATCH''\<rparr>)"
    by (simp add: exampleDb_def exampleRequest_def)
  have verb:
    "toUpperCase (req_method (exampleRequest\<lparr>req_method := ''PATCH''\<rparr>))
       \<notin> {''GET'', ''POST'', ''PUT'', ''DELETE''}"
    by (simp add: toUpperCase_def toUpperChar_def)
  from C3_not_found_before_method_not_allowed [OF ok(1), of exampleDb
         "exampleRequest\<lparr>req_endpoint_name := ''cars'', req_method := ''PATCH''\<rparr>" exampleRuntime]
       unknown
  have A: "handleRequest exampleRuntime [] exampleDb
      (exampleRequest\<lparr>req_endpoint_name := ''cars'', req_method := ''PATCH''\<rparr>)
     = (\<lparr>status = 404, json_body = message ''API endpoint not found.''\<rparr>, exampleDb)"
    by blast
  from C3_not_found_before_method_not_allowed [OF ok(1), of exampleDb
         "exampleRequest\<lparr>req_method := ''PATCH''\<rparr>" exampleRuntime]
       known verb ok(2)
  have B: "handleRequest exampleRuntime [] exampleDb (exampleRequest\<lparr>req_method := ''PATCH''\<rparr>)
     = (\<lparr>status = 405, json_body = message ''Method Not Allowed''\<rparr>, exampleDb)"
    by blast
  from A B show ?thesis by simp
qed




text \<open>
  C5 (amended). For a field declared FLOAT the validator accepts a value iff the text of the
  value, after leading white space, begins with a decimal literal: an optional sign, then
  \<^verbatim>\<open>Infinity\<close>, a digit, or a point and a digit. What follows the literal is ignored.
\<close>

theorem C5_float_accepts_text_starting_with_number:
  assumes "toUpperCase ty = ''FLOAT''"
  shows "validateDataType rt v ty \<longleftrightarrow> startsDecimalLiteral (trimStart (ToString rt v))"
  using assms by (simp add: validate_FLOAT parseFloat_NaN_iff)

theorem C5_witness:
  "toUpperCase ''float'' = ''FLOAT''
   \<and> validateDataType exampleRuntime (JStr '' -.5e3x'') ''float''
   \<and> startsDecimalLiteral (trimStart (ToString exampleRuntime (JStr '' -.5e3x'')))
   \<and> \<not> validateDataType exampleRuntime (JStr ''abc'') ''float''
   \<and> \<not> startsDecimalLiteral (trimStart (ToString exampleRuntime (JStr ''abc'')))"
proof -
  have T: "toUpperCase ''float'' = ''FLOAT''"
    by (simp add: toUpperCase_def toUpperChar_def)
  have A: "startsDecimalLiteral (trimStart (ToString exampleRuntime (JStr '' -.5e3x'')))"
    by (simp add: startsDecimalLiteral_def trimStart_def isWhiteSpace_def isDecimalDigit_def)
  have B: "\<not> startsDecimalLiteral (trimStart (ToString exampleRuntime (JStr ''abc'')))"
    by (simp add: startsDecimalLiteral_def trimStart_def isWhiteSpace_def isDecimalDigit_def)
  from C5_float_accepts_text_starting_with_number [OF T, of exampleRuntime "JStr '' -.5e3x''"]
       C5_float_accepts_text_starting_with_number [OF T, of exampleRuntime "JStr ''abc''"]
       T A B
  show ?thesis by simp
qed

text \<open>
  C5, as stated, fails: the texts \<^verbatim>\<open>"Infinity"\<close> and \<^verbatim>\<open>"3abc"\<close> are accepted as FLOAT.
\<close>

theorem C5_float_accepts_Infinity_and_trailing_text:
  "validateDataType exampleRuntime (JStr ''Infinity'') ''FLOAT''
   \<and> validateDataType exampleRuntime (JStr ''3abc'') ''FLOAT''"
  by (simp add: validateDataType_def toUpperCase_def toUpperChar_def parseFloat_Infinity
      parseFloat_3abc)











end
